theory Spec2Isabelle
  imports Main
begin

section \<open>The gated file bot of src/bot.py\<close>

text \<open>
  The bot has four handlers (\<open>start\<close>, \<open>upload\<close>, \<open>handle_media\<close>, \<open>revoke_link\<close>), one
  membership helper (\<open>is_subscribed\<close>) and one link helper (\<open>generate_link\<close>). Each handler
  is modelled as a function from the configuration, the collection and the inbound update to
  a \<open>result\<close>: the collection afterwards, the calls made on the transport, the store and
  the job queue in the order the source makes them, and the exception that left the handler,
  if one did.

  The MongoDB collection \<open>files\<close> is a list of documents in insertion order. \<open>find_one\<close> and
  \<open>update_one\<close> act on the first document that matches the filter, \<open>insert_one\<close> appends.
  Transport and store calls other than \<open>get_chat_member\<close> are taken to return normally.
\<close>

subsection \<open>Data\<close>

datatype exn = NameError string | TelegramError string

text \<open>The module-level configuration read from the environment (lines 13 to 17).\<close>

record config =
  ADMIN_ID :: int
  FORCE_SUB_CHANNELS :: "string list"
  DELETE_TIME_MINUTES :: int

text \<open>
  A document of the collection (line 22). \<open>revoked = None\<close> is a document without the
  field \<open>revoked\<close> (or with a null there): \<open>file_doc.get('revoked', False)\<close> is falsy for both.
\<close>

record file_doc =
  file_id :: string
  link :: string
  revoked :: "bool option"
  timestamp :: nat

type_synonym collection = "file_doc list"

record user =
  user_id :: int
  mention_html :: string

text \<open>
  The media of an inbound message: the file id of its document, the file ids of its photo
  sizes in the order Telegram lists them (smallest first), the file id of its video.
\<close>

record message =
  message_id :: int
  document :: "string option"
  photo :: "string list"
  video :: "string option"

record callback_query =
  from_user :: int
  data :: string

datatype button = UrlButton string string | CallbackButton string string

datatype action =
    GetChatMember string int
  | FindOne string
  | InsertOne file_doc
  | UpdateOne string
  | ReplyText string
  | ReplyMarkup string "button list list"
  | SendDocument int string
  | AnswerQuery
  | EditMessageText string
  | RunOnce int int

record result =
  db_after :: collection
  actions :: "action list"
  raised :: "exn option"

subsection \<open>Strings\<close>

text \<open>\<open>s.startswith(p)\<close>.\<close>

definition startswith :: "string \<Rightarrow> string \<Rightarrow> bool" where
  "startswith s p = (take (length p) s = p)"

text \<open>
  \<open>s.replace(old, new)\<close>: every occurrence of \<open>old\<close>, found from left to right without
  overlap, is replaced; an empty \<open>old\<close> matches before every character and at the end.
\<close>

function str_replace :: "string \<Rightarrow> string \<Rightarrow> string \<Rightarrow> string" where
  "str_replace [] old new = (if old = [] then new else [])"
| "str_replace (c # cs) old new =
     (if old = [] then new @ c # str_replace cs old new
      else if take (length old) (c # cs) = old
        then new @ str_replace (drop (length old) (c # cs)) old new
      else c # str_replace cs old new)"
  by pat_completeness auto
termination
  by (relation "measure (\<lambda>(s, old, new). length s)") auto

subsection \<open>The collection\<close>

definition insert_one :: "collection \<Rightarrow> file_doc \<Rightarrow> collection" where
  "insert_one db d = db @ [d]"

fun find_one :: "collection \<Rightarrow> string \<Rightarrow> file_doc option" where
  "find_one [] fid = None"
| "find_one (d # ds) fid = (if file_id d = fid then Some d else find_one ds fid)"

text \<open>
  \<open>update_one({'file_id': fid}, {'$set': {'revoked': True}})\<close>: the collection afterwards and
  the \<open>matched_count\<close> of the result.
\<close>

fun update_one :: "collection \<Rightarrow> string \<Rightarrow> collection \<times> nat" where
  "update_one [] fid = ([], 0)"
| "update_one (d # ds) fid =
     (if file_id d = fid then (d\<lparr>revoked := Some True\<rparr> # ds, 1)
      else (case update_one ds fid of (ds', n) \<Rightarrow> (d # ds', n)))"

subsection \<open>The helpers\<close>

text \<open>
  \<open>is_subscribed\<close> (lines 35 to 44), with the \<open>get_chat_member\<close> calls it made.
  \<open>gcm channel uid\<close> is what the transport answers: a status, or the exception it raised.
\<close>

fun is_subscribed ::
  "(string \<Rightarrow> int \<Rightarrow> exn + string) \<Rightarrow> string list \<Rightarrow> int \<Rightarrow> bool \<times> action list" where
  "is_subscribed gcm [] uid = (True, [])"
| "is_subscribed gcm (channel # rest) uid =
     (case gcm channel uid of
        Inl e \<Rightarrow> (False, [GetChatMember channel uid])
      | Inr status \<Rightarrow>
          if status \<notin> set [''member'', ''administrator'', ''creator'']
          then (False, [GetChatMember channel uid])
          else (case is_subscribed gcm rest uid of
                  (ok, calls) \<Rightarrow> (ok, GetChatMember channel uid # calls)))"

text \<open>The names bound at module level when a handler runs (lines 1 to 135).\<close>

definition module_globals :: "string list" where
  "module_globals =
     [''os'', ''asyncio'', ''logging'', ''datetime'', ''timedelta'', ''Update'',
      ''InlineKeyboardButton'', ''InlineKeyboardMarkup'', ''Application'', ''CommandHandler'',
      ''MessageHandler'', ''CallbackQueryHandler'', ''filters'', ''ContextTypes'',
      ''MongoClient'', ''load_dotenv'', ''Flask'', ''BOT_TOKEN'', ''MONGO_URI'', ''ADMIN_ID'',
      ''FORCE_SUB_CHANNELS'', ''DELETE_TIME_MINUTES'', ''client'', ''db'', ''files_collection'',
      ''app'', ''home'', ''logger'', ''is_subscribed'', ''generate_link'', ''start'', ''upload'',
      ''handle_media'', ''revoke_link'', ''delete_message'', ''main'']"

text \<open>
  \<open>generate_link\<close> (lines 47 and 48) has the one parameter \<open>file_id\<close> and reads
  \<open>context.bot.username\<close>. \<open>context\<close> is neither a parameter nor a local of the function, so
  Python looks it up among the module's globals when the body runs (and then among the
  builtins, which have no such name), and raises NameError when it is not there.
  \<open>bot_username\<close> is what \<open>context.bot.username\<close> would give.
\<close>

definition generate_link :: "string \<Rightarrow> string \<Rightarrow> exn + string" where
  "generate_link bot_username fid =
     (if ''context'' \<in> set module_globals
      then Inr (''https://t.me/'' @ bot_username @ ''?start=file_'' @ fid)
      else Inl (NameError ''context''))"

subsection \<open>The handlers\<close>

text \<open>\<open>start\<close> (lines 51 to 70); \<open>args\<close> is \<open>context.args\<close>.\<close>

definition start ::
  "config \<Rightarrow> (string \<Rightarrow> int \<Rightarrow> exn + string) \<Rightarrow> collection \<Rightarrow> user \<Rightarrow> string list \<Rightarrow> result" where
  "start cfg gcm db usr args =
     (case is_subscribed gcm (FORCE_SUB_CHANNELS cfg) (user_id usr) of
        (ok, calls) \<Rightarrow>
          if \<not> ok then
            \<lparr>db_after = db,
             actions = calls @
               [ReplyMarkup ''Please subscribe to all our channels to use this bot.''
                  (map (\<lambda>channel. [UrlButton (''Subscribe to '' @ channel)
                                      (''https://t.me/'' @ drop 1 channel)])
                     (FORCE_SUB_CHANNELS cfg))],
             raised = None\<rparr>
          else if args \<noteq> [] \<and> startswith (hd args) ''file_'' then
            (let fid = str_replace (hd args) ''file_'' '''' in
             case find_one db fid of
               None \<Rightarrow>
                 \<lparr>db_after = db,
                  actions = calls @ [FindOne fid, ReplyText ''Link expired or invalid.''],
                  raised = None\<rparr>
             | Some doc \<Rightarrow>
                 if revoked doc \<noteq> Some True then
                   \<lparr>db_after = db,
                    actions = calls @ [FindOne fid, ReplyText ''Accessing file...'',
                                       SendDocument (user_id usr) (file_id doc)],
                    raised = None\<rparr>
                 else
                   \<lparr>db_after = db,
                    actions = calls @ [FindOne fid, ReplyText ''Link expired or invalid.''],
                    raised = None\<rparr>)
          else
            \<lparr>db_after = db,
             actions = calls @
               [ReplyText (''Hello '' @ mention_html usr @
                           ''! Use /upload to share files (admin only).'')],
             raised = None\<rparr>)"

text \<open>\<open>upload\<close> (lines 73 to 77).\<close>

definition upload :: "config \<Rightarrow> collection \<Rightarrow> user \<Rightarrow> result" where
  "upload cfg db usr =
     (if user_id usr \<noteq> ADMIN_ID cfg
      then \<lparr>db_after = db, actions = [ReplyText ''Only admin can upload.''], raised = None\<rparr>
      else \<lparr>db_after = db,
            actions = [ReplyText ''Send me a file, photo, or video to upload.''],
            raised = None\<rparr>)"

text \<open>
  The file id \<open>handle_media\<close> picks (lines 86 to 95): the document's, else the last photo
  size's, else the video's; \<open>None\<close> is the \<open>else\<close> branch of the source.
\<close>

definition media_file_id :: "message \<Rightarrow> string option" where
  "media_file_id msg =
     (case document msg of
        Some fid \<Rightarrow> Some fid
      | None \<Rightarrow>
          if photo msg \<noteq> [] then Some (last (photo msg))
          else (case video msg of Some fid \<Rightarrow> Some fid | None \<Rightarrow> None))"

text \<open>
  \<open>handle_media\<close> (lines 80 to 112); \<open>now\<close> is \<open>datetime.utcnow()\<close>. The call of
  \<open>generate_link\<close> on line 98 comes before the insert, the reply and the job: an exception
  there leaves the handler with none of them done.
\<close>

definition handle_media ::
  "config \<Rightarrow> string \<Rightarrow> nat \<Rightarrow> collection \<Rightarrow> user \<Rightarrow> message \<Rightarrow> result" where
  "handle_media cfg bot_username now db usr msg =
     (if user_id usr \<noteq> ADMIN_ID cfg
      then \<lparr>db_after = db, actions = [ReplyText ''Only admin can upload files.''],
            raised = None\<rparr>
      else
        (case media_file_id msg of
           None \<Rightarrow>
             \<lparr>db_after = db, actions = [ReplyText ''Unsupported file type.''], raised = None\<rparr>
         | Some fid \<Rightarrow>
             (case generate_link bot_username fid of
                Inl e \<Rightarrow> \<lparr>db_after = db, actions = [], raised = Some e\<rparr>
              | Inr lnk \<Rightarrow>
                  (let doc = \<lparr>file_id = fid, link = lnk, revoked = Some False,
                              timestamp = now\<rparr>
                   in \<lparr>db_after = insert_one db doc,
                       actions =
                         [InsertOne doc,
                          ReplyMarkup (''File uploaded! Share this link: '' @ lnk)
                            [[CallbackButton ''Revoke Link'' (''revoke_'' @ fid)]],
                          RunOnce (DELETE_TIME_MINUTES cfg * 60) (message_id msg)],
                       raised = None\<rparr>))))"

text \<open>\<open>revoke_link\<close> (lines 115 to 124). The result of \<open>update_one\<close> is not looked at.\<close>

definition revoke_link :: "config \<Rightarrow> collection \<Rightarrow> callback_query \<Rightarrow> result" where
  "revoke_link cfg db query =
     (if from_user query \<noteq> ADMIN_ID cfg
      then \<lparr>db_after = db,
            actions = [AnswerQuery, EditMessageText ''Only admin can revoke.''],
            raised = None\<rparr>
      else
        (let fid = str_replace (data query) ''revoke_'' ''''
         in \<lparr>db_after = fst (update_one db fid),
             actions = [AnswerQuery, UpdateOne fid, EditMessageText ''Link revoked!''],
             raised = None\<rparr>))"

subsection \<open>Sequences of updates\<close>

text \<open>
  What reaches the process: the four handlers registered in \<open>main\<close> (lines 138 to 141),
  and \<open>Insert\<close>, the \<open>insert_one\<close> of lines 99 to 104 on its own, which is what a create
  does to the collection.
\<close>

datatype event =
    Start user "string list"
  | Upload user
  | Media user message nat
  | Revoke callback_query
  | Insert file_doc

fun handle ::
  "config \<Rightarrow> (string \<Rightarrow> int \<Rightarrow> exn + string) \<Rightarrow> string \<Rightarrow> collection \<Rightarrow> event \<Rightarrow> result" where
  "handle cfg gcm bot_username db (Start usr args) = start cfg gcm db usr args"
| "handle cfg gcm bot_username db (Upload usr) = upload cfg db usr"
| "handle cfg gcm bot_username db (Media usr msg now) =
     handle_media cfg bot_username now db usr msg"
| "handle cfg gcm bot_username db (Revoke query) = revoke_link cfg db query"
| "handle cfg gcm bot_username db (Insert d) =
     \<lparr>db_after = insert_one db d, actions = [InsertOne d], raised = None\<rparr>"

definition run ::
  "config \<Rightarrow> (string \<Rightarrow> int \<Rightarrow> exn + string) \<Rightarrow> string \<Rightarrow> collection \<Rightarrow> event list \<Rightarrow> collection" where
  "run cfg gcm bot_username db events =
     foldl (\<lambda>db' ev. db_after (handle cfg gcm bot_username db' ev)) db events"

subsection \<open>Notions the properties are stated with\<close>

text \<open>
  An answer of \<open>get_chat_member\<close> that satisfies a channel in the sense of the
  specification: a status among member, administrator and creator; a failed query does not.
\<close>

definition satisfies :: "exn + string \<Rightarrow> bool" where
  "satisfies answer =
     (case answer of
        Inl e \<Rightarrow> False
      | Inr status \<Rightarrow> status \<in> {''member'', ''administrator'', ''creator''})"

text \<open>The calls a user of the chat sees the effect of, and the calls on the collection.\<close>

fun user_visible :: "action \<Rightarrow> bool" where
  "user_visible (ReplyText t) = True"
| "user_visible (ReplyMarkup t kb) = True"
| "user_visible (SendDocument chat fid) = True"
| "user_visible AnswerQuery = True"
| "user_visible (EditMessageText t) = True"
| "user_visible a = False"

fun store_call :: "action \<Rightarrow> bool" where
  "store_call (FindOne fid) = True"
| "store_call (InsertOne d) = True"
| "store_call (UpdateOne fid) = True"
| "store_call a = False"

text \<open>The record a lookup of the token returns carries \<open>revoked = True\<close>.\<close>

definition revoked_at :: "collection \<Rightarrow> string \<Rightarrow> bool" where
  "revoked_at db token =
     (case find_one db token of None \<Rightarrow> False | Some d \<Rightarrow> revoked d = Some True)"

text \<open>
  Every record of \<open>db\<close> is still in \<open>db'\<close>, at its place and under its file id, and is
  revoked there if it was revoked in \<open>db\<close>.
\<close>

definition stays_revoked :: "collection \<Rightarrow> collection \<Rightarrow> bool" where
  "stays_revoked db db' =
     (length db \<le> length db' \<and>
      list_all (\<lambda>(d, d'). file_id d' = file_id d \<and>
                          (revoked d = Some True \<longrightarrow> revoked d' = Some True))
        (zip db db'))"

section \<open>Properties\<close>

subsection \<open>The collection\<close>

lemma find_one_Some: "find_one db t = Some d \<Longrightarrow> file_id d = t \<and> d \<in> set db"
  by (induction db) (auto split: if_splits)

lemma find_one_insert_one:
  "find_one (insert_one db d) t =
     (case find_one db t of
        Some x \<Rightarrow> Some x
      | None \<Rightarrow> if file_id d = t then Some d else None)"
  by (induction db) (simp_all add: insert_one_def)

lemma find_one_update_one:
  "find_one (fst (update_one db t)) t' =
     (if t' = t then map_option (\<lambda>d. d\<lparr>revoked := Some True\<rparr>) (find_one db t)
      else find_one db t')"
  by (induction db) (auto simp: case_prod_beta)

lemma update_one_matched:
  "snd (update_one db t) = (if find_one db t = None then 0 else 1)"
  by (induction db) (auto simp: case_prod_beta)

lemma update_one_absent: "find_one db t = None \<Longrightarrow> fst (update_one db t) = db"
  by (induction db) (auto simp: case_prod_beta split: if_splits)

lemma update_one_revoked: "revoked_at db t \<Longrightarrow> fst (update_one db t) = db"
  by (induction db) (auto simp: case_prod_beta revoked_at_def split: if_splits)

lemma file_ids_update_one: "map file_id (fst (update_one db t)) = map file_id db"
  by (induction db) (auto simp: case_prod_beta)

lemma length_update_one: "length (fst (update_one db t)) = length db"
  using file_ids_update_one [of db t] by (metis length_map)

lemma revoked_update_one:
  "i < length db \<Longrightarrow> revoked (db ! i) = Some True \<Longrightarrow>
   revoked (fst (update_one db t) ! i) = Some True"
proof (induction db arbitrary: i)
  case Nil
  then show ?case by simp
next
  case (Cons d ds)
  then show ?case by (cases i) (auto simp: case_prod_beta)
qed

lemma revoked_at_insert_one: "revoked_at db t \<Longrightarrow> revoked_at (insert_one db d) t"
  by (simp add: revoked_at_def find_one_insert_one split: option.splits)

lemma revoked_at_update_one: "revoked_at db t \<Longrightarrow> revoked_at (fst (update_one db t')) t"
  by (auto simp: revoked_at_def find_one_update_one split: option.splits)

lemma revoked_at_after_update: "find_one db t = Some d \<Longrightarrow> revoked_at (fst (update_one db t)) t"
  by (simp add: revoked_at_def find_one_update_one)

lemma stays_revoked_nth:
  "stays_revoked db db' \<longleftrightarrow>
     length db \<le> length db' \<and>
     (\<forall>i < length db. file_id (db' ! i) = file_id (db ! i) \<and>
        (revoked (db ! i) = Some True \<longrightarrow> revoked (db' ! i) = Some True))"
  by (auto simp: stays_revoked_def list_all_length)

lemma stays_revoked_refl: "stays_revoked db db"
  by (simp add: stays_revoked_nth)

lemma stays_revoked_trans:
  "stays_revoked a b \<Longrightarrow> stays_revoked b c \<Longrightarrow> stays_revoked a c"
  by (fastforce simp: stays_revoked_nth)

lemma stays_revoked_insert_one: "stays_revoked db (insert_one db d)"
  by (simp add: stays_revoked_nth insert_one_def nth_append)

lemma stays_revoked_update_one: "stays_revoked db (fst (update_one db t))"
proof -
  have "file_id (fst (update_one db t) ! i) = file_id (db ! i)" if "i < length db" for i
    using that file_ids_update_one [of db t] length_update_one [of db t]
    by (metis nth_map)
  then show ?thesis
    by (simp add: stays_revoked_nth length_update_one revoked_update_one)
qed

subsection \<open>The membership gate\<close>

lemma is_subscribed_fst:
  "fst (is_subscribed gcm channels uid) \<longleftrightarrow>
     (\<forall>channel \<in> set channels. satisfies (gcm channel uid))"
  by (induction channels) (auto simp: satisfies_def split: sum.splits prod.splits)

lemma is_subscribed_snd:
  "snd (is_subscribed gcm channels uid) =
     map (\<lambda>channel. GetChatMember channel uid)
       (takeWhile (\<lambda>channel. satisfies (gcm channel uid)) channels
        @ take 1 (dropWhile (\<lambda>channel. satisfies (gcm channel uid)) channels))"
  by (induction channels) (auto simp: satisfies_def split: sum.splits prod.splits)

lemma is_subscribed_calls:
  "set (snd (is_subscribed gcm channels uid))
     \<subseteq> (\<lambda>channel. GetChatMember channel uid) ` set channels"
  by (induction channels) (auto split: sum.splits prod.splits)

lemma is_subscribed_calls_visible:
  "filter user_visible (snd (is_subscribed gcm channels uid)) = []"
  by (induction channels) (auto split: sum.splits prod.splits)

lemma is_subscribed_calls_store:
  "filter store_call (snd (is_subscribed gcm channels uid)) = []"
  by (induction channels) (auto split: sum.splits prod.splits)

text \<open>
  Claim C3. \<open>is_subscribed\<close> answers True exactly when every configured channel answers with
  a status among member, administrator and creator for the user; another status or a failed
  query on a channel makes it False. It asks the channels in the configured order and stops
  after the first one that is not satisfied: the calls made are those for the longest prefix
  of satisfied channels and for the channel after it, if there is one. With no channel
  configured it answers True and asks nothing.
\<close>

theorem C3_is_subscribed_all_channels:
  "(fst (is_subscribed gcm channels uid) \<longleftrightarrow>
      (\<forall>channel \<in> set channels. satisfies (gcm channel uid)))
   \<and> snd (is_subscribed gcm channels uid) =
       map (\<lambda>channel. GetChatMember channel uid)
         (takeWhile (\<lambda>channel. satisfies (gcm channel uid)) channels
          @ take 1 (dropWhile (\<lambda>channel. satisfies (gcm channel uid)) channels))
   \<and> is_subscribed gcm [] uid = (True, [])"
  using is_subscribed_fst [of gcm channels uid] is_subscribed_snd [of gcm channels uid]
  by simp

theorem C3_is_subscribed_all_channels_witness:
  "is_subscribed
     (\<lambda>channel uid. if channel = ''@a'' then Inr ''member''
                     else if channel = ''@b'' then Inl (TelegramError ''Chat not found'')
                     else Inr ''creator'')
     [''@a'', ''@b'', ''@c''] 42
   = (False, [GetChatMember ''@a'' 42, GetChatMember ''@b'' 42])
   \<and> is_subscribed (\<lambda>channel uid. Inr ''administrator'') [''@a'', ''@b''] 42
   = (True, [GetChatMember ''@a'' 42, GetChatMember ''@b'' 42])
   \<and> is_subscribed (\<lambda>channel uid. Inr ''left'') [''@a'', ''@b''] 42
   = (False, [GetChatMember ''@a'' 42])"
  using
    C3_is_subscribed_all_channels
      [of "\<lambda>channel uid. if channel = ''@a'' then Inr ''member''
                     else if channel = ''@b'' then Inl (TelegramError ''Chat not found'')
                     else Inr ''creator''" "[''@a'', ''@b'', ''@c'']" 42]
    C3_is_subscribed_all_channels [of "\<lambda>channel uid. Inr ''administrator''" "[''@a'', ''@b'']" 42]
    C3_is_subscribed_all_channels [of "\<lambda>channel uid. Inr ''left''" "[''@a'', ''@b'']" 42]
  by (simp add: satisfies_def prod_eq_iff)

subsection \<open>Redemption\<close>

lemma start_denied:
  assumes "\<not> fst (is_subscribed gcm (FORCE_SUB_CHANNELS cfg) (user_id usr))"
  shows "start cfg gcm db usr args =
           \<lparr>db_after = db,
            actions = snd (is_subscribed gcm (FORCE_SUB_CHANNELS cfg) (user_id usr)) @
              [ReplyMarkup ''Please subscribe to all our channels to use this bot.''
                 (map (\<lambda>channel. [UrlButton (''Subscribe to '' @ channel)
                                     (''https://t.me/'' @ drop 1 channel)])
                    (FORCE_SUB_CHANNELS cfg))],
            raised = None\<rparr>"
  using assms by (simp add: start_def case_prod_beta)

lemma start_file:
  assumes "fst (is_subscribed gcm (FORCE_SUB_CHANNELS cfg) (user_id usr))"
    and "startswith arg ''file_''"
  shows "start cfg gcm db usr (arg # rest) =
           \<lparr>db_after = db,
            actions = snd (is_subscribed gcm (FORCE_SUB_CHANNELS cfg) (user_id usr)) @
              FindOne (str_replace arg ''file_'' '''') #
              (case find_one db (str_replace arg ''file_'' '''') of
                 None \<Rightarrow> [ReplyText ''Link expired or invalid.'']
               | Some doc \<Rightarrow>
                   if revoked doc = Some True then [ReplyText ''Link expired or invalid.'']
                   else [ReplyText ''Accessing file...'',
                         SendDocument (user_id usr) (file_id doc)]),
            raised = None\<rparr>"
  using assms by (simp add: start_def case_prod_beta Let_def split: option.splits)

lemma start_never_delivers_revoked:
  assumes "revoked_at db t" and "startswith arg ''file_''"
    and "str_replace arg ''file_'' '''' = t"
  shows "SendDocument chat fid \<notin> set (actions (start cfg gcm db usr (arg # rest)))"
proof (cases "fst (is_subscribed gcm (FORCE_SUB_CHANNELS cfg) (user_id usr))")
  case True
  then show ?thesis
    using assms is_subscribed_calls [of gcm "FORCE_SUB_CHANNELS cfg" "user_id usr"]
    by (auto simp: start_file revoked_at_def split: option.splits)
next
  case False
  then show ?thesis
    using is_subscribed_calls [of gcm "FORCE_SUB_CHANNELS cfg" "user_id usr"]
    by (auto simp: start_denied)
qed

text \<open>
  Claim C9. When the gate check of \<open>start\<close> fails, the handler ends after one reply: the
  subscription prompt, with one button per configured channel (so one for every channel
  the user does not satisfy), labelled with the channel and linking to it. Before the
  reply it made only the membership queries; it makes no call on the collection.
\<close>

theorem C9_denied_prompt_without_lookup:
  assumes "\<not> fst (is_subscribed gcm (FORCE_SUB_CHANNELS cfg) (user_id usr))"
  shows "start cfg gcm db usr args =
           \<lparr>db_after = db,
            actions = snd (is_subscribed gcm (FORCE_SUB_CHANNELS cfg) (user_id usr)) @
              [ReplyMarkup ''Please subscribe to all our channels to use this bot.''
                 (map (\<lambda>channel. [UrlButton (''Subscribe to '' @ channel)
                                     (''https://t.me/'' @ drop 1 channel)])
                    (FORCE_SUB_CHANNELS cfg))],
            raised = None\<rparr>
         \<and> (\<forall>channel \<in> set (FORCE_SUB_CHANNELS cfg).
               \<not> satisfies (gcm channel (user_id usr)) \<longrightarrow>
               (\<exists>text keyboard.
                  last (actions (start cfg gcm db usr args)) = ReplyMarkup text keyboard
                  \<and> [UrlButton (''Subscribe to '' @ channel) (''https://t.me/'' @ drop 1 channel)]
                      \<in> set keyboard))
         \<and> filter store_call (actions (start cfg gcm db usr args)) = []"
  using assms by (auto simp: start_denied is_subscribed_calls_store)

theorem C9_denied_prompt_without_lookup_witness:
  "start \<lparr>ADMIN_ID = 1, FORCE_SUB_CHANNELS = [''@news'', ''@chat''], DELETE_TIME_MINUTES = 30\<rparr>
     (\<lambda>channel uid. if channel = ''@news'' then Inr ''member'' else Inr ''left'')
     [\<lparr>file_id = ''F1'', link = ''l'', revoked = Some False, timestamp = 0\<rparr>]
     \<lparr>user_id = 2, mention_html = ''u''\<rparr> [''file_F1'']
   = \<lparr>db_after = [\<lparr>file_id = ''F1'', link = ''l'', revoked = Some False, timestamp = 0\<rparr>],
      actions =
        [GetChatMember ''@news'' 2, GetChatMember ''@chat'' 2,
         ReplyMarkup ''Please subscribe to all our channels to use this bot.''
           [[UrlButton ''Subscribe to @news'' ''https://t.me/news''],
            [UrlButton ''Subscribe to @chat'' ''https://t.me/chat'']]],
      raised = None\<rparr>"
  using C9_denied_prompt_without_lookup
    [where cfg = "\<lparr>ADMIN_ID = 1, FORCE_SUB_CHANNELS = [''@news'', ''@chat''],
                    DELETE_TIME_MINUTES = 30\<rparr>"
       and gcm = "\<lambda>channel uid. if channel = ''@news'' then Inr ''member'' else Inr ''left''"
       and usr = "\<lparr>user_id = 2, mention_html = ''u''\<rparr>"
       and db = "[\<lparr>file_id = ''F1'', link = ''l'', revoked = Some False, timestamp = 0\<rparr>]"
       and args = "[''file_F1'']"]
  by simp

text \<open>
  Claim C10. For a user who passes the gate and a payload whose token has a record, \<open>start\<close>
  looks the token up and rejects only when the record carries \<open>revoked = True\<close>; a record
  without the field \<open>revoked\<close> (and one with \<open>revoked = False\<close>) is delivered: the reply
  "Accessing file..." and the document of the record, sent to the user.
\<close>

theorem C10_missing_revoked_is_delivered:
  assumes "fst (is_subscribed gcm (FORCE_SUB_CHANNELS cfg) (user_id usr))"
    and "startswith arg ''file_''"
    and "find_one db (str_replace arg ''file_'' '''') = Some doc"
  shows "file_id doc = str_replace arg ''file_'' ''''
         \<and> start cfg gcm db usr (arg # rest) =
           \<lparr>db_after = db,
            actions = snd (is_subscribed gcm (FORCE_SUB_CHANNELS cfg) (user_id usr)) @
              FindOne (file_id doc) #
              (if revoked doc = Some True then [ReplyText ''Link expired or invalid.'']
               else [ReplyText ''Accessing file...'', SendDocument (user_id usr) (file_id doc)]),
            raised = None\<rparr>"
  using assms find_one_Some [OF assms(3)] by (simp add: start_file)

theorem C10_missing_revoked_is_delivered_witness:
  "start \<lparr>ADMIN_ID = 1, FORCE_SUB_CHANNELS = [''@news''], DELETE_TIME_MINUTES = 30\<rparr>
     (\<lambda>channel uid. Inr ''member'')
     [\<lparr>file_id = ''F1'', link = ''l'', revoked = None, timestamp = 0\<rparr>]
     \<lparr>user_id = 2, mention_html = ''u''\<rparr> [''file_F1'']
   = \<lparr>db_after = [\<lparr>file_id = ''F1'', link = ''l'', revoked = None, timestamp = 0\<rparr>],
      actions = [GetChatMember ''@news'' 2, FindOne ''F1'', ReplyText ''Accessing file...'',
                 SendDocument 2 ''F1''],
      raised = None\<rparr>"
  using C10_missing_revoked_is_delivered
    [where cfg = "\<lparr>ADMIN_ID = 1, FORCE_SUB_CHANNELS = [''@news''], DELETE_TIME_MINUTES = 30\<rparr>"
       and gcm = "\<lambda>channel uid. Inr ''member''"
       and usr = "\<lparr>user_id = 2, mention_html = ''u''\<rparr>"
       and db = "[\<lparr>file_id = ''F1'', link = ''l'', revoked = None, timestamp = 0\<rparr>]"
       and arg = "''file_F1''" and rest = "[]"
       and doc = "\<lparr>file_id = ''F1'', link = ''l'', revoked = None, timestamp = 0\<rparr>"]
  by (simp add: startswith_def)

text \<open>
  What \<open>start\<close> does with the key it looks up (the payload after \<open>str.replace\<close>), for users
  who pass the gate: a key without a record and a key whose record is revoked give the same
  single reply, leave the collection as it is, and deliver nothing.
\<close>

lemma start_rejects_unknown_and_revoked_keys:
  assumes "fst (is_subscribed gcm (FORCE_SUB_CHANNELS cfg) (user_id usr1))"
    and "fst (is_subscribed gcm (FORCE_SUB_CHANNELS cfg) (user_id usr2))"
    and "startswith arg1 ''file_''" and "startswith arg2 ''file_''"
    and "find_one db (str_replace arg1 ''file_'' '''') = None"
    and "find_one db (str_replace arg2 ''file_'' '''') = Some doc"
    and "revoked doc = Some True"
  shows "filter user_visible (actions (start cfg gcm db usr1 (arg1 # rest1)))
           = [ReplyText ''Link expired or invalid.'']
         \<and> filter user_visible (actions (start cfg gcm db usr2 (arg2 # rest2)))
           = [ReplyText ''Link expired or invalid.'']
         \<and> db_after (start cfg gcm db usr1 (arg1 # rest1)) = db
         \<and> db_after (start cfg gcm db usr2 (arg2 # rest2)) = db
         \<and> filter store_call (actions (start cfg gcm db usr1 (arg1 # rest1)))
           = [FindOne (str_replace arg1 ''file_'' '''')]
         \<and> filter store_call (actions (start cfg gcm db usr2 (arg2 # rest2)))
           = [FindOne (str_replace arg2 ''file_'' '''')]
         \<and> raised (start cfg gcm db usr1 (arg1 # rest1)) = None
         \<and> raised (start cfg gcm db usr2 (arg2 # rest2)) = None"
  using assms by (simp add: start_file is_subscribed_calls_store is_subscribed_calls_visible)

text \<open>
  Claim C4. The claim: a redemption that carries a token without a record and one that
  carries a token whose record is revoked both end in "Link expired or invalid." and
  deliver nothing. The code looks up not the token the payload carries but what
  \<open>str.replace\<close> leaves of the payload, and that can be the token of another record.
  User 2 passes the gate. First, the collection holds the unrevoked record \<open>F1\<close>; the
  payload \<open>file_Ffile_1\<close> carries the token \<open>Ffile_1\<close>, which has no record, and \<open>start\<close>
  sends the document \<open>F1\<close>. Second, the collection holds \<open>abfile_cd\<close>, revoked, and \<open>abcd\<close>,
  not revoked; the payload \<open>file_abfile_cd\<close> carries the revoked token, and \<open>start\<close> sends
  the document \<open>abcd\<close>.
\<close>

theorem C4_token_with_marker_is_delivered:
  "find_one [\<lparr>file_id = ''F1'', link = ''l'', revoked = Some False, timestamp = 0\<rparr>]
       ''Ffile_1'' = None
   \<and> start \<lparr>ADMIN_ID = 1, FORCE_SUB_CHANNELS = [''@news''], DELETE_TIME_MINUTES = 30\<rparr>
       (\<lambda>channel uid. Inr ''member'')
       [\<lparr>file_id = ''F1'', link = ''l'', revoked = Some False, timestamp = 0\<rparr>]
       \<lparr>user_id = 2, mention_html = ''u''\<rparr> [''file_Ffile_1'']
     = \<lparr>db_after = [\<lparr>file_id = ''F1'', link = ''l'', revoked = Some False, timestamp = 0\<rparr>],
        actions = [GetChatMember ''@news'' 2, FindOne ''F1'', ReplyText ''Accessing file...'',
                   SendDocument 2 ''F1''],
        raised = None\<rparr>
   \<and> find_one
       [\<lparr>file_id = ''abfile_cd'', link = ''l'', revoked = Some True, timestamp = 0\<rparr>,
        \<lparr>file_id = ''abcd'', link = ''m'', revoked = Some False, timestamp = 1\<rparr>]
       ''abfile_cd''
     = Some \<lparr>file_id = ''abfile_cd'', link = ''l'', revoked = Some True, timestamp = 0\<rparr>
   \<and> start \<lparr>ADMIN_ID = 1, FORCE_SUB_CHANNELS = [''@news''], DELETE_TIME_MINUTES = 30\<rparr>
       (\<lambda>channel uid. Inr ''member'')
       [\<lparr>file_id = ''abfile_cd'', link = ''l'', revoked = Some True, timestamp = 0\<rparr>,
        \<lparr>file_id = ''abcd'', link = ''m'', revoked = Some False, timestamp = 1\<rparr>]
       \<lparr>user_id = 2, mention_html = ''u''\<rparr> [''file_abfile_cd'']
     = \<lparr>db_after =
          [\<lparr>file_id = ''abfile_cd'', link = ''l'', revoked = Some True, timestamp = 0\<rparr>,
           \<lparr>file_id = ''abcd'', link = ''m'', revoked = Some False, timestamp = 1\<rparr>],
        actions = [GetChatMember ''@news'' 2, FindOne ''abcd'', ReplyText ''Accessing file...'',
                   SendDocument 2 ''abcd''],
        raised = None\<rparr>"
  by (simp add: start_def startswith_def Let_def)

subsection \<open>The upload path\<close>

lemma generate_link_raises: "generate_link bot_username fid = Inl (NameError ''context'')"
  by (simp add: generate_link_def module_globals_def)

text \<open>
  Claim C1. The claim: every media upload by the administrator inserts exactly one new
  record with \<open>revoked = False\<close> and answers with the link and a revoke button for the file.
  The code does not: \<open>handle_media\<close> calls \<open>generate_link\<close> first, and \<open>generate_link\<close> reads the
  name \<open>context\<close>, which it neither takes as a parameter nor finds at module level. Here the
  administrator (id 1) sends a document with file id \<open>F1\<close> to an empty collection: the handler
  ends with NameError, the collection is still empty, and nothing was sent or scheduled.
\<close>

theorem C1_admin_upload_raises_before_insert:
  "handle_media \<lparr>ADMIN_ID = 1, FORCE_SUB_CHANNELS = [], DELETE_TIME_MINUTES = 30\<rparr>
       ''filebot'' 7 []
       \<lparr>user_id = 1, mention_html = ''admin''\<rparr>
       \<lparr>message_id = 5, document = Some ''F1'', photo = [], video = None\<rparr>
     = \<lparr>db_after = [], actions = [], raised = Some (NameError ''context'')\<rparr>"
  by (simp add: handle_media_def media_file_id_def generate_link_def module_globals_def)

subsection \<open>Tokens in payloads\<close>

text \<open>
  Claim C6. The claim: the token handed to the registry is the payload without its leading
  marker, whatever the token contains. The code removes every occurrence of the marker
  (\<open>str.replace\<close>), not only the leading one. Here a record with file id \<open>abfile_cd\<close> is in the
  collection and not revoked; the link \<open>generate_link\<close> is written to build for it carries the
  payload \<open>file_abfile_cd\<close>. \<open>start\<close> looks up \<open>abcd\<close> and answers that the link is invalid.
  Likewise the revoke button \<open>handle_media\<close> is written to build for file id \<open>abrevoke_cd\<close>
  carries \<open>revoke_abrevoke_cd\<close>; \<open>revoke_link\<close> updates \<open>abcd\<close> and the record stays as it was.
\<close>

theorem C6_marker_removed_everywhere:
  "start \<lparr>ADMIN_ID = 1, FORCE_SUB_CHANNELS = [], DELETE_TIME_MINUTES = 30\<rparr> gcm
       [\<lparr>file_id = ''abfile_cd'', link = ''l'', revoked = Some False, timestamp = 0\<rparr>]
       \<lparr>user_id = 2, mention_html = ''u''\<rparr> [''file_abfile_cd'']
     = \<lparr>db_after =
          [\<lparr>file_id = ''abfile_cd'', link = ''l'', revoked = Some False, timestamp = 0\<rparr>],
        actions = [FindOne ''abcd'', ReplyText ''Link expired or invalid.''],
        raised = None\<rparr>
   \<and> revoke_link \<lparr>ADMIN_ID = 1, FORCE_SUB_CHANNELS = [], DELETE_TIME_MINUTES = 30\<rparr>
       [\<lparr>file_id = ''abrevoke_cd'', link = ''l'', revoked = Some False, timestamp = 0\<rparr>]
       \<lparr>from_user = 1, data = ''revoke_abrevoke_cd''\<rparr>
     = \<lparr>db_after =
          [\<lparr>file_id = ''abrevoke_cd'', link = ''l'', revoked = Some False, timestamp = 0\<rparr>],
        actions = [AnswerQuery, UpdateOne ''abcd'', EditMessageText ''Link revoked!''],
        raised = None\<rparr>"
  by (simp add: start_def startswith_def revoke_link_def)

subsection \<open>Callers other than the administrator\<close>

text \<open>
  Claim C7. For a caller whose id is not \<open>ADMIN_ID\<close>, the upload of media, the \<open>/upload\<close>
  command and the revoke button each answer with their fixed denial and leave the
  collection as it is: the handler makes no call on the collection at all.
\<close>

theorem C7_non_admin_changes_nothing:
  assumes "user_id usr \<noteq> ADMIN_ID cfg" and "from_user query \<noteq> ADMIN_ID cfg"
  shows "handle_media cfg bot_username now db usr msg =
           \<lparr>db_after = db, actions = [ReplyText ''Only admin can upload files.''],
            raised = None\<rparr>
         \<and> upload cfg db usr =
           \<lparr>db_after = db, actions = [ReplyText ''Only admin can upload.''], raised = None\<rparr>
         \<and> revoke_link cfg db query =
           \<lparr>db_after = db,
            actions = [AnswerQuery, EditMessageText ''Only admin can revoke.''],
            raised = None\<rparr>
         \<and> filter store_call (actions (handle_media cfg bot_username now db usr msg)) = []
         \<and> filter store_call (actions (revoke_link cfg db query)) = []"
  using assms by (simp add: handle_media_def upload_def revoke_link_def)

theorem C7_non_admin_changes_nothing_witness:
  "handle_media \<lparr>ADMIN_ID = 1, FORCE_SUB_CHANNELS = [], DELETE_TIME_MINUTES = 30\<rparr>
     ''filebot'' 7
     [\<lparr>file_id = ''F1'', link = ''l'', revoked = Some False, timestamp = 0\<rparr>]
     \<lparr>user_id = 2, mention_html = ''u''\<rparr>
     \<lparr>message_id = 5, document = Some ''F2'', photo = [], video = None\<rparr>
   = \<lparr>db_after = [\<lparr>file_id = ''F1'', link = ''l'', revoked = Some False, timestamp = 0\<rparr>],
      actions = [ReplyText ''Only admin can upload files.''], raised = None\<rparr>
   \<and> revoke_link \<lparr>ADMIN_ID = 1, FORCE_SUB_CHANNELS = [], DELETE_TIME_MINUTES = 30\<rparr>
     [\<lparr>file_id = ''F1'', link = ''l'', revoked = Some False, timestamp = 0\<rparr>]
     \<lparr>from_user = 2, data = ''revoke_F1''\<rparr>
   = \<lparr>db_after = [\<lparr>file_id = ''F1'', link = ''l'', revoked = Some False, timestamp = 0\<rparr>],
      actions = [AnswerQuery, EditMessageText ''Only admin can revoke.''], raised = None\<rparr>"
  using C7_non_admin_changes_nothing
    [where cfg = "\<lparr>ADMIN_ID = 1, FORCE_SUB_CHANNELS = [], DELETE_TIME_MINUTES = 30\<rparr>"
       and usr = "\<lparr>user_id = 2, mention_html = ''u''\<rparr>"
       and query = "\<lparr>from_user = 2, data = ''revoke_F1''\<rparr>"
       and bot_username = "''filebot''" and now = 7
       and db = "[\<lparr>file_id = ''F1'', link = ''l'', revoked = Some False, timestamp = 0\<rparr>]"
       and msg = "\<lparr>message_id = 5, document = Some ''F2'', photo = [], video = None\<rparr>"]
  by simp

subsection \<open>Revocation\<close>

lemma db_after_handle:
  "db_after (handle cfg gcm bot_username db ev) = db
   \<or> (\<exists>t. db_after (handle cfg gcm bot_username db ev) = fst (update_one db t))
   \<or> (\<exists>d. db_after (handle cfg gcm bot_username db ev) = insert_one db d)"
proof (cases ev)
  case (Start usr args)
  then show ?thesis
    by (simp add: start_def case_prod_beta Let_def split: option.splits)
next
  case (Upload usr)
  then show ?thesis by (simp add: upload_def)
next
  case (Media usr msg now)
  then show ?thesis
    by (auto simp: handle_media_def Let_def split: option.splits sum.splits)
next
  case (Revoke query)
  then show ?thesis by (auto simp: revoke_link_def Let_def)
next
  case (Insert d)
  then show ?thesis by auto
qed

lemma revoked_at_step:
  assumes "revoked_at db t"
  shows "revoked_at (db_after (handle cfg gcm bot_username db ev)) t"
  using db_after_handle [of cfg gcm bot_username db ev] assms
  by (auto simp: revoked_at_insert_one revoked_at_update_one)

lemma revoked_at_run:
  "revoked_at db t \<Longrightarrow> revoked_at (run cfg gcm bot_username db events) t"
  unfolding run_def
  by (induction events arbitrary: db) (simp_all add: revoked_at_step)

lemma stays_revoked_step: "stays_revoked db (db_after (handle cfg gcm bot_username db ev))"
  using db_after_handle [of cfg gcm bot_username db ev]
  by (auto simp: stays_revoked_refl stays_revoked_insert_one stays_revoked_update_one)

lemma stays_revoked_run: "stays_revoked db (run cfg gcm bot_username db events)"
proof (induction events arbitrary: db)
  case Nil
  then show ?case by (simp add: run_def stays_revoked_refl)
next
  case (Cons ev events)
  have "stays_revoked (db_after (handle cfg gcm bot_username db ev))
          (run cfg gcm bot_username (db_after (handle cfg gcm bot_username db ev)) events)"
    by (rule Cons.IH)
  then show ?case
    using stays_revoked_step [of db cfg gcm bot_username ev]
    by (auto simp: run_def intro: stays_revoked_trans)
qed

text \<open>
  Claim C2, as stated, fails: after a revoke that matched a record, a redemption of the
  token by a user who does not pass the gate does not end in "Link expired or invalid." but
  in the subscription prompt, since \<open>start\<close> checks the gate before it looks the token up.
  Here the administrator revokes \<open>F1\<close>, and user 2, who has left the one required channel,
  redeems \<open>file_F1\<close>.
\<close>

theorem C2_denied_user_sees_prompt_counterexample:
  "db_after (revoke_link
       \<lparr>ADMIN_ID = 1, FORCE_SUB_CHANNELS = [''@news''], DELETE_TIME_MINUTES = 30\<rparr>
       [\<lparr>file_id = ''F1'', link = ''l'', revoked = Some False, timestamp = 0\<rparr>]
       \<lparr>from_user = 1, data = ''revoke_F1''\<rparr>)
     = [\<lparr>file_id = ''F1'', link = ''l'', revoked = Some True, timestamp = 0\<rparr>]
   \<and> actions (start
       \<lparr>ADMIN_ID = 1, FORCE_SUB_CHANNELS = [''@news''], DELETE_TIME_MINUTES = 30\<rparr>
       (\<lambda>channel uid. Inr ''left'')
       [\<lparr>file_id = ''F1'', link = ''l'', revoked = Some True, timestamp = 0\<rparr>]
       \<lparr>user_id = 2, mention_html = ''u''\<rparr> [''file_F1''])
     = [GetChatMember ''@news'' 2,
        ReplyMarkup ''Please subscribe to all our channels to use this bot.''
          [[UrlButton ''Subscribe to @news'' ''https://t.me/news'']]]
   \<and> ReplyText ''Link expired or invalid.'' \<notin> set (actions (start
       \<lparr>ADMIN_ID = 1, FORCE_SUB_CHANNELS = [''@news''], DELETE_TIME_MINUTES = 30\<rparr>
       (\<lambda>channel uid. Inr ''left'')
       [\<lparr>file_id = ''F1'', link = ''l'', revoked = Some True, timestamp = 0\<rparr>]
       \<lparr>user_id = 2, mention_html = ''u''\<rparr> [''file_F1'']))"
  by (simp add: revoke_link_def start_def Let_def)

text \<open>
  Claim C2, amended. Let the administrator press a revoke button whose token has a
  record, and let any handler calls and inserts follow. Then a lookup of the token still
  returns a record with \<open>revoked = True\<close>; no redemption of the token sends a document, by
  whatever user; the user sees the single reply "Link expired or invalid." when they pass
  the gate, and the subscription prompt when they do not. And from any collection, whatever
  follows, every record stays in its place under its file id, and a record that was revoked
  stays revoked.
\<close>

theorem C2_revocation_is_terminal:
  assumes "from_user query = ADMIN_ID cfg"
    and "str_replace (data query) ''revoke_'' '''' = token"
    and "find_one db token = Some doc"
    and "startswith arg ''file_''"
    and "str_replace arg ''file_'' '''' = token"
  shows "revoked_at (run cfg gcm bot_username (db_after (revoke_link cfg db query)) events) token
    \<and> SendDocument chat fid \<notin> set (actions (start cfg gcm'
          (run cfg gcm bot_username (db_after (revoke_link cfg db query)) events) usr (arg # rest)))
    \<and> (if fst (is_subscribed gcm' (FORCE_SUB_CHANNELS cfg) (user_id usr))
       then filter user_visible (actions (start cfg gcm'
              (run cfg gcm bot_username (db_after (revoke_link cfg db query)) events)
              usr (arg # rest)))
            = [ReplyText ''Link expired or invalid.'']
       else filter user_visible (actions (start cfg gcm'
              (run cfg gcm bot_username (db_after (revoke_link cfg db query)) events)
              usr (arg # rest)))
            = [ReplyMarkup ''Please subscribe to all our channels to use this bot.''
                 (map (\<lambda>channel. [UrlButton (''Subscribe to '' @ channel)
                                     (''https://t.me/'' @ drop 1 channel)])
                    (FORCE_SUB_CHANNELS cfg))])
    \<and> stays_revoked db0 (run cfg gcm bot_username db0 events)"
proof -
  let ?db1 = "db_after (revoke_link cfg db query)"
  let ?db2 = "run cfg gcm bot_username ?db1 events"
  have "revoked_at ?db1 token"
    using assms(1-3) by (simp add: revoke_link_def revoked_at_after_update)
  then have r: "revoked_at ?db2 token"
    by (rule revoked_at_run)
  have d: "SendDocument chat fid \<notin> set (actions (start cfg gcm' ?db2 usr (arg # rest)))"
    using r assms(4,5) by (rule start_never_delivers_revoked)
  have v: "filter user_visible (actions (start cfg gcm' ?db2 usr (arg # rest)))
            = [ReplyText ''Link expired or invalid.'']"
    if "fst (is_subscribed gcm' (FORCE_SUB_CHANNELS cfg) (user_id usr))"
    using that r assms(4,5)
    by (auto simp: start_file revoked_at_def is_subscribed_calls_visible split: option.splits)
  have w: "filter user_visible (actions (start cfg gcm' ?db2 usr (arg # rest)))
            = [ReplyMarkup ''Please subscribe to all our channels to use this bot.''
                 (map (\<lambda>channel. [UrlButton (''Subscribe to '' @ channel)
                                     (''https://t.me/'' @ drop 1 channel)])
                    (FORCE_SUB_CHANNELS cfg))]"
    if "\<not> fst (is_subscribed gcm' (FORCE_SUB_CHANNELS cfg) (user_id usr))"
    using that by (simp add: start_denied is_subscribed_calls_visible)
  show ?thesis
    using r d v w stays_revoked_run [of db0 cfg gcm bot_username events] by simp
qed

theorem C2_revocation_is_terminal_witness:
  "run \<lparr>ADMIN_ID = 1, FORCE_SUB_CHANNELS = [''@news''], DELETE_TIME_MINUTES = 30\<rparr>
     (\<lambda>channel uid. Inr ''member'') ''filebot''
     (db_after (revoke_link
        \<lparr>ADMIN_ID = 1, FORCE_SUB_CHANNELS = [''@news''], DELETE_TIME_MINUTES = 30\<rparr>
        [\<lparr>file_id = ''F1'', link = ''l'', revoked = Some False, timestamp = 0\<rparr>]
        \<lparr>from_user = 1, data = ''revoke_F1''\<rparr>))
     [Insert \<lparr>file_id = ''F1'', link = ''l'', revoked = Some False, timestamp = 9\<rparr>,
      Revoke \<lparr>from_user = 2, data = ''revoke_F1''\<rparr>,
      Start \<lparr>user_id = 2, mention_html = ''u''\<rparr> [''file_F1'']]
   = [\<lparr>file_id = ''F1'', link = ''l'', revoked = Some True, timestamp = 0\<rparr>,
      \<lparr>file_id = ''F1'', link = ''l'', revoked = Some False, timestamp = 9\<rparr>]
   \<and> filter user_visible (actions (start
        \<lparr>ADMIN_ID = 1, FORCE_SUB_CHANNELS = [''@news''], DELETE_TIME_MINUTES = 30\<rparr>
        (\<lambda>channel uid. Inr ''member'')
        [\<lparr>file_id = ''F1'', link = ''l'', revoked = Some True, timestamp = 0\<rparr>,
         \<lparr>file_id = ''F1'', link = ''l'', revoked = Some False, timestamp = 9\<rparr>]
        \<lparr>user_id = 2, mention_html = ''u''\<rparr> [''file_F1'']))
     = [ReplyText ''Link expired or invalid.'']"
proof -
  let ?cfg = "\<lparr>ADMIN_ID = 1, FORCE_SUB_CHANNELS = [''@news''], DELETE_TIME_MINUTES = 30\<rparr>"
  let ?db = "[\<lparr>file_id = ''F1'', link = ''l'', revoked = Some False, timestamp = 0\<rparr>]"
  let ?q = "\<lparr>from_user = 1, data = ''revoke_F1''\<rparr>"
  let ?evs = "[Insert \<lparr>file_id = ''F1'', link = ''l'', revoked = Some False, timestamp = 9\<rparr>,
      Revoke \<lparr>from_user = 2, data = ''revoke_F1''\<rparr>,
      Start \<lparr>user_id = 2, mention_html = ''u''\<rparr> [''file_F1'']]"
  have run_eq:
    "run ?cfg (\<lambda>channel uid. Inr ''member'') ''filebot'' (db_after (revoke_link ?cfg ?db ?q)) ?evs
     = [\<lparr>file_id = ''F1'', link = ''l'', revoked = Some True, timestamp = 0\<rparr>,
        \<lparr>file_id = ''F1'', link = ''l'', revoked = Some False, timestamp = 9\<rparr>]"
    by (simp add: run_def revoke_link_def insert_one_def start_def startswith_def Let_def)
  have a1: "from_user ?q = ADMIN_ID ?cfg" by simp
  have a2: "str_replace (data ?q) ''revoke_'' '''' = ''F1''" by simp
  have a3: "find_one ?db ''F1'' = Some (hd ?db)" by simp
  have a4: "startswith ''file_F1'' ''file_''" by (simp add: startswith_def)
  have a5: "str_replace ''file_F1'' ''file_'' '''' = ''F1''" by simp
  have "filter user_visible (actions (start ?cfg (\<lambda>channel uid. Inr ''member'')
            (run ?cfg (\<lambda>channel uid. Inr ''member'') ''filebot''
               (db_after (revoke_link ?cfg ?db ?q)) ?evs)
            \<lparr>user_id = 2, mention_html = ''u''\<rparr> [''file_F1'']))
          = [ReplyText ''Link expired or invalid.'']"
    using C2_revocation_is_terminal
      [OF a1 a2 a3 a4 a5, where events = ?evs and rest = "[]"
         and gcm = "\<lambda>channel uid. Inr ''member''" and gcm' = "\<lambda>channel uid. Inr ''member''"
         and bot_username = "''filebot''" and usr = "\<lparr>user_id = 2, mention_html = ''u''\<rparr>"]
    by simp
  then show ?thesis
    unfolding run_eq using run_eq by simp
qed

subsection \<open>The result of a revoke\<close>

text \<open>
  Claim C8, as stated, fails in its last part: \<open>update_one\<close> does return a result that
  tells a matched token (\<open>matched_count\<close> 1) from an unknown one (0), but \<open>revoke_link\<close>
  does not read it. On a collection without the token and on one with it, the
  administrator gets the same calls and the same text, "Link revoked!".
\<close>

theorem C8_not_found_is_reported_as_revoked_counterexample:
  "snd (update_one [] ''F1'') = 0
   \<and> snd (update_one
        [\<lparr>file_id = ''F1'', link = ''l'', revoked = Some False, timestamp = 0\<rparr>] ''F1'') = 1
   \<and> actions (revoke_link \<lparr>ADMIN_ID = 1, FORCE_SUB_CHANNELS = [], DELETE_TIME_MINUTES = 30\<rparr>
        [] \<lparr>from_user = 1, data = ''revoke_F1''\<rparr>)
     = [AnswerQuery, UpdateOne ''F1'', EditMessageText ''Link revoked!'']
   \<and> actions (revoke_link \<lparr>ADMIN_ID = 1, FORCE_SUB_CHANNELS = [], DELETE_TIME_MINUTES = 30\<rparr>
        [\<lparr>file_id = ''F1'', link = ''l'', revoked = Some False, timestamp = 0\<rparr>]
        \<lparr>from_user = 1, data = ''revoke_F1''\<rparr>)
     = [AnswerQuery, UpdateOne ''F1'', EditMessageText ''Link revoked!'']"
  by (simp add: revoke_link_def Let_def)

text \<open>
  Claim C8, amended. For the administrator, \<open>revoke_link\<close> never raises and always answers
  "Link revoked!". It sets \<open>revoked = True\<close> on the first record with the token when there
  is one and leaves every other token's lookup as it was; it leaves the collection as it
  is when the token has no record or its record is already revoked; a second revoke
  changes nothing. The result of \<open>update_one\<close> tells found from not found, but the handler
  does not look at it.
\<close>

theorem C8_revoke_link_result:
  assumes "from_user query = ADMIN_ID cfg"
    and "str_replace (data query) ''revoke_'' '''' = token"
  shows "revoke_link cfg db query =
           \<lparr>db_after = fst (update_one db token),
            actions = [AnswerQuery, UpdateOne token, EditMessageText ''Link revoked!''],
            raised = None\<rparr>
         \<and> snd (update_one db token) = (if find_one db token = None then 0 else 1)
         \<and> find_one (db_after (revoke_link cfg db query)) token' =
             (if token' = token
              then map_option (\<lambda>d. d\<lparr>revoked := Some True\<rparr>) (find_one db token)
              else find_one db token')
         \<and> (if find_one db token = None \<or> revoked_at db token
            then db_after (revoke_link cfg db query) = db
            else revoked_at (db_after (revoke_link cfg db query)) token)
         \<and> db_after (revoke_link cfg (db_after (revoke_link cfg db query)) query)
             = db_after (revoke_link cfg db query)"
proof -
  have r: "revoke_link cfg db' query =
           \<lparr>db_after = fst (update_one db' token),
            actions = [AnswerQuery, UpdateOne token, EditMessageText ''Link revoked!''],
            raised = None\<rparr>" for db'
    using assms by (simp add: revoke_link_def Let_def)
  have "fst (update_one db token) = db" if "find_one db token = None \<or> revoked_at db token"
    using that update_one_absent update_one_revoked by blast
  moreover have "revoked_at (fst (update_one db token)) token"
    if "\<not> (find_one db token = None \<or> revoked_at db token)"
    using that revoked_at_after_update by auto
  moreover have "fst (update_one (fst (update_one db token)) token) = fst (update_one db token)"
  proof (cases "find_one db token")
    case None
    then show ?thesis by (simp add: update_one_absent)
  next
    case (Some d)
    then show ?thesis by (simp add: update_one_revoked revoked_at_after_update)
  qed
  ultimately show ?thesis
    by (simp add: r update_one_matched find_one_update_one)
qed

theorem C8_revoke_link_result_witness:
  "revoke_link \<lparr>ADMIN_ID = 1, FORCE_SUB_CHANNELS = [], DELETE_TIME_MINUTES = 30\<rparr>
     [\<lparr>file_id = ''F0'', link = ''k'', revoked = None, timestamp = 0\<rparr>,
      \<lparr>file_id = ''F1'', link = ''l'', revoked = Some False, timestamp = 1\<rparr>]
     \<lparr>from_user = 1, data = ''revoke_F1''\<rparr>
   = \<lparr>db_after =
        [\<lparr>file_id = ''F0'', link = ''k'', revoked = None, timestamp = 0\<rparr>,
         \<lparr>file_id = ''F1'', link = ''l'', revoked = Some True, timestamp = 1\<rparr>],
      actions = [AnswerQuery, UpdateOne ''F1'', EditMessageText ''Link revoked!''],
      raised = None\<rparr>"
proof -
  have a1: "from_user \<lparr>from_user = 1, data = ''revoke_F1''\<rparr>
              = ADMIN_ID \<lparr>ADMIN_ID = 1, FORCE_SUB_CHANNELS = [], DELETE_TIME_MINUTES = 30\<rparr>"
    by simp
  have a2: "str_replace (data \<lparr>from_user = 1, data = ''revoke_F1''\<rparr>) ''revoke_'' '''' = ''F1''"
    by simp
  show ?thesis
    using C8_revoke_link_result
      [OF a1 a2, where db = "[\<lparr>file_id = ''F0'', link = ''k'', revoked = None, timestamp = 0\<rparr>,
                             \<lparr>file_id = ''F1'', link = ''l'', revoked = Some False,
                                timestamp = 1\<rparr>]"]
    by simp
qed

subsection \<open>Tokens and records\<close>

text \<open>
  The four handlers leave the file ids of the collection as they are: \<open>start\<close> and \<open>upload\<close>
  do not write, \<open>revoke_link\<close> sets a flag, and \<open>handle_media\<close> ends before its insert.
\<close>

lemma handlers_keep_file_ids:
  assumes "\<And>d. ev \<noteq> Insert d"
  shows "map file_id (db_after (handle cfg gcm bot_username db ev)) = map file_id db"
proof (cases ev)
  case (Start usr args)
  then show ?thesis
    by (simp add: start_def case_prod_beta Let_def split: option.splits)
next
  case (Upload usr)
  then show ?thesis by (simp add: upload_def)
next
  case (Media usr msg now)
  then show ?thesis
    by (simp add: handle_media_def generate_link_raises split: option.splits)
next
  case (Revoke query)
  then show ?thesis by (simp add: revoke_link_def Let_def file_ids_update_one)
next
  case (Insert d)
  then show ?thesis using assms by simp
qed

text \<open>
  Claim C5. The claim: create performs a fresh insert on every accepted upload, and each
  token identifies at most one record also when the same artifact is uploaded more than
  once. The code performs no insert on an accepted upload: \<open>handle_media\<close> calls
  \<open>generate_link\<close> (line 98) before \<open>insert_one\<close> (line 99), and \<open>generate_link\<close> raises
  NameError. Here the administrator uploads the document \<open>F1\<close> twice to an empty
  collection: both calls end with NameError, and the collection is still empty, so the
  token \<open>F1\<close> identifies no record at all.
\<close>

theorem C5_accepted_uploads_insert_nothing:
  "run \<lparr>ADMIN_ID = 1, FORCE_SUB_CHANNELS = [], DELETE_TIME_MINUTES = 30\<rparr>
       (\<lambda>channel uid. Inr ''member'') ''filebot'' []
       [Media \<lparr>user_id = 1, mention_html = ''admin''\<rparr>
          \<lparr>message_id = 5, document = Some ''F1'', photo = [], video = None\<rparr> 7,
        Media \<lparr>user_id = 1, mention_html = ''admin''\<rparr>
          \<lparr>message_id = 6, document = Some ''F1'', photo = [], video = None\<rparr> 9]
     = []
   \<and> raised (handle \<lparr>ADMIN_ID = 1, FORCE_SUB_CHANNELS = [], DELETE_TIME_MINUTES = 30\<rparr>
       (\<lambda>channel uid. Inr ''member'') ''filebot'' []
       (Media \<lparr>user_id = 1, mention_html = ''admin''\<rparr>
          \<lparr>message_id = 6, document = Some ''F1'', photo = [], video = None\<rparr> 9))
     = Some (NameError ''context'')
   \<and> find_one
       (run \<lparr>ADMIN_ID = 1, FORCE_SUB_CHANNELS = [], DELETE_TIME_MINUTES = 30\<rparr>
          (\<lambda>channel uid. Inr ''member'') ''filebot'' []
          [Media \<lparr>user_id = 1, mention_html = ''admin''\<rparr>
             \<lparr>message_id = 5, document = Some ''F1'', photo = [], video = None\<rparr> 7,
           Media \<lparr>user_id = 1, mention_html = ''admin''\<rparr>
             \<lparr>message_id = 6, document = Some ''F1'', photo = [], video = None\<rparr> 9])
       ''F1''
     = None"
  by (simp add: run_def handle_media_def media_file_id_def generate_link_raises)

end
